theory Spec2Isabelle
  imports Main "HOL-Library.Word"
begin

section \<open>The FPGA PCI driver: data model\<close>

text \<open>
  The driver of \<^verbatim>\<open>fpga_pci_pinned.c\<close> is straight-line C over the kernel's PCI, mapping,
  DMA and interrupt primitives. The embedding keeps the driver's functions as HOL functions
  and makes their effects explicit: every call of a kernel primitive is appended, with its
  arguments and with the value the kernel returned, to a trace, and the one piece of device
  state the driver writes (\<^verbatim>\<open>driver_data\<close>, behind \<^verbatim>\<open>pci_set_drvdata\<close>) is a field of the
  device record that the functions return updated.

  C types (LP64 kernel): \<^verbatim>\<open>int\<close> and \<^verbatim>\<open>unsigned int\<close> are 32-bit words (\<open>sint\<close> reads the
  signed value), pointers, \<^verbatim>\<open>size_t\<close>, \<^verbatim>\<open>unsigned long\<close>, \<^verbatim>\<open>resource_size_t\<close> and
  \<^verbatim>\<open>dma_addr_t\<close> are 64-bit words, and the null pointer is \<open>0\<close>.
\<close>

type_synonym c_int = "32 word"
type_synonym ptr = "64 word"
type_synonym size_t = "64 word"
type_synonym dma_addr_t = "64 word"
type_synonym resource_size_t = "64 word"

definition DRIVER_NAME :: string where
  "DRIVER_NAME = ''fpga_pci''"

definition ENOMEM :: c_int where
  "ENOMEM = 12"

definition IRQF_SHARED :: "64 word" where
  "IRQF_SHARED = 0x80"

datatype irqreturn_t = IRQ_NONE | IRQ_HANDLED | IRQ_WAKE_THREAD

datatype irq_handler_t = Fpga_pci_irq_handler

datatype gfp_t = GFP_KERNEL

datatype loglevel = KERN_ERR | KERN_INFO

text \<open>
  The part of \<^verbatim>\<open>struct pci_dev\<close> the driver reads and writes. \<open>pdev_addr\<close> is the value of
  the C pointer \<^verbatim>\<open>pdev\<close> itself, which the driver hands to the kernel as device identity
  (\<^verbatim>\<open>&pdev->dev\<close> for the DMA calls, \<^verbatim>\<open>dev_id\<close> for the interrupt calls). \<open>resource_start\<close>
  and \<open>resource_len\<close> are what the header macros \<^verbatim>\<open>pci_resource_start\<close> and
  \<^verbatim>\<open>pci_resource_len\<close> read for a BAR index; the macros are kernel headers, so their values
  are taken as given per device.
\<close>

record pci_dev =
  pdev_addr :: ptr
  irq :: "32 word"
  resource_start :: "nat \<Rightarrow> resource_size_t"
  resource_len :: "nat \<Rightarrow> resource_size_t"
  driver_data :: ptr

definition pci_resource_start :: "pci_dev \<Rightarrow> nat \<Rightarrow> resource_size_t" where
  "pci_resource_start pdev bar = resource_start pdev bar"

definition pci_resource_len :: "pci_dev \<Rightarrow> nat \<Rightarrow> resource_size_t" where
  "pci_resource_len pdev bar = resource_len pdev bar"

definition pci_get_drvdata :: "pci_dev \<Rightarrow> ptr" where
  "pci_get_drvdata pdev = driver_data pdev"

definition pci_set_drvdata :: "pci_dev \<Rightarrow> ptr \<Rightarrow> pci_dev" where
  "pci_set_drvdata pdev data = pdev\<lparr>driver_data := data\<rparr>"

text \<open>
  One constructor per kernel primitive the driver calls, with the arguments in the order of
  the C call and, for the primitives that return something, the value returned as the last
  argument(s). \<open>Dma_alloc_coherent\<close> carries both the returned CPU address and the bus
  address stored through \<^verbatim>\<open>&dma_handle\<close>. \<open>Printk\<close> stands for \<^verbatim>\<open>pr_err\<close> and
  \<^verbatim>\<open>pr_info\<close>: the level, the format string and the values of the format's arguments.
\<close>

datatype kcall =
    Pci_enable_device ptr c_int
  | Pci_request_regions ptr string c_int
  | Pci_iomap ptr nat "64 word" ptr
  | Ioremap_wc resource_size_t "64 word" ptr
  | Dma_alloc_coherent ptr size_t gfp_t ptr dma_addr_t
  | Pci_set_drvdata ptr ptr
  | Request_irq "32 word" irq_handler_t "64 word" string ptr c_int
  | Free_irq "32 word" ptr
  | Dma_free_coherent ptr size_t ptr dma_addr_t
  | Iounmap ptr
  | Pci_iounmap ptr ptr
  | Pci_release_regions ptr
  | Pci_disable_device ptr
  | Printk loglevel string "int list"

text \<open>
  What the kernel answers is outside the driver, so it is a parameter: one reply per
  fallible primitive that \<^verbatim>\<open>fpga_pci_probe\<close> calls, and one per primitive that
  \<^verbatim>\<open>fpga_pci_remove\<close> calls. A theorem for all replies holds for every kernel behaviour.
\<close>

record probe_kernel =
  reply_enable :: c_int
  reply_request_regions :: c_int
  reply_iomap :: ptr
  reply_ioremap_wc :: ptr
  reply_dma_alloc :: "ptr \<times> dma_addr_t"
  reply_request_irq :: c_int

record remove_kernel =
  again_ioremap_wc :: ptr
  again_dma_alloc :: "ptr \<times> dma_addr_t"

section \<open>The driver's functions\<close>

text \<open>\<^verbatim>\<open>fpga_pci_irq_handler\<close>: the argument \<^verbatim>\<open>dev_id\<close> is a \<^verbatim>\<open>void *\<close>, so the state it
  points to is of any type; the handler returns it as it leaves it.\<close>

definition fpga_pci_irq_handler :: "c_int \<Rightarrow> 'a \<Rightarrow> irqreturn_t \<times> 'a \<times> kcall list" where
  "fpga_pci_irq_handler irq_line dev_id =
     (IRQ_HANDLED, dev_id, [Printk KERN_INFO ''FPGA PCI interrupt handled\<newline>'' []])"

text \<open>What the kernel's dispatch does with a registered handler: it calls the function the
  pointer names.\<close>

fun call_handler :: "irq_handler_t \<Rightarrow> c_int \<Rightarrow> 'a \<Rightarrow> irqreturn_t \<times> 'a \<times> kcall list" where
  "call_handler Fpga_pci_irq_handler irq_line dev_id = fpga_pci_irq_handler irq_line dev_id"

text \<open>\<^verbatim>\<open>fpga_pci_probe\<close> of \<^verbatim>\<open>fpga_pci_pinned.c\<close>: the return value, the device as the
  function leaves it, and the kernel calls made, in order.\<close>

definition fpga_pci_probe :: "probe_kernel \<Rightarrow> pci_dev \<Rightarrow> c_int \<times> pci_dev \<times> kcall list" where
  "fpga_pci_probe k pdev =
    (let dma_size = 4096 :: size_t;
         dev = pdev_addr pdev;
         err = reply_enable k;
         t = [Pci_enable_device dev err]
     in if err \<noteq> 0 then
          (err, pdev, t @ [Printk KERN_ERR ''Failed to enable PCI device\<newline>'' []])
        else
     let err = reply_request_regions k;
         t = t @ [Pci_request_regions dev DRIVER_NAME err]
     in if err \<noteq> 0 then
          (err, pdev, t @ [Printk KERN_ERR ''Failed to request PCI regions\<newline>'' [],
                           Pci_disable_device dev])
        else
     let hw_addr = reply_iomap k;
         t = t @ [Pci_iomap dev 0 (pci_resource_len pdev 0) hw_addr]
     in if hw_addr = 0 then
          (- ENOMEM, pdev, t @ [Printk KERN_ERR ''Failed to map PCI I/O memory\<newline>'' [],
                                Pci_release_regions dev,
                                Pci_disable_device dev])
        else
     let wc_mem = reply_ioremap_wc k;
         t = t @ [Ioremap_wc (pci_resource_start pdev 0) (pci_resource_len pdev 0) wc_mem]
     in if wc_mem = 0 then
          (- ENOMEM, pdev, t @ [Printk KERN_ERR ''Failed to map WriteCombined memory\<newline>'' [],
                                Pci_iounmap dev hw_addr,
                                Pci_release_regions dev,
                                Pci_disable_device dev])
        else
     let (dma_buffer, dma_handle) = reply_dma_alloc k;
         t = t @ [Dma_alloc_coherent dev dma_size GFP_KERNEL dma_buffer dma_handle]
     in if dma_buffer = 0 then
          (- ENOMEM, pdev, t @ [Printk KERN_ERR ''Failed to allocate pinned DMA memory\<newline>'' [],
                                Iounmap wc_mem,
                                Pci_iounmap dev hw_addr,
                                Pci_release_regions dev,
                                Pci_disable_device dev])
        else
     let pdev = pci_set_drvdata pdev hw_addr;
         t = t @ [Pci_set_drvdata dev hw_addr];
         irq = irq pdev;
         err = reply_request_irq k;
         t = t @ [Request_irq irq Fpga_pci_irq_handler IRQF_SHARED DRIVER_NAME dev err]
     in if err \<noteq> 0 then
          (err, pdev, t @ [Printk KERN_ERR ''Failed to request IRQ %d\<newline>'' [sint irq],
                           Dma_free_coherent dev dma_size dma_buffer dma_handle,
                           Iounmap wc_mem,
                           Pci_iounmap dev hw_addr,
                           Pci_release_regions dev,
                           Pci_disable_device dev])
        else
          (0, pdev, t @ [Printk KERN_INFO ''FPGA PCI device initialized successfully\<newline>'' []]))"

text \<open>\<^verbatim>\<open>fpga_pci_remove\<close> of \<^verbatim>\<open>fpga_pci_pinned.c\<close>. Its initialisers call \<^verbatim>\<open>ioremap_wc\<close>
  and \<^verbatim>\<open>dma_alloc_coherent\<close> again; the values released afterwards are the ones these two
  calls return. When the allocation fails, \<^verbatim>\<open>dma_handle\<close> is whatever the second component
  of the reply is.\<close>

definition fpga_pci_remove :: "remove_kernel \<Rightarrow> pci_dev \<Rightarrow> pci_dev \<times> kcall list" where
  "fpga_pci_remove k pdev =
    (let dev = pdev_addr pdev;
         hw_addr = pci_get_drvdata pdev;
         wc_mem = again_ioremap_wc k;
         irq = irq pdev;
         dma_size = 4096 :: size_t;
         (dma_buffer, dma_handle) = again_dma_alloc k
     in (pdev,
         [Ioremap_wc (pci_resource_start pdev 0) (pci_resource_len pdev 0) wc_mem,
          Dma_alloc_coherent dev dma_size GFP_KERNEL dma_buffer dma_handle,
          Free_irq irq dev,
          Dma_free_coherent dev dma_size dma_buffer dma_handle,
          Iounmap wc_mem,
          Pci_iounmap dev hw_addr,
          Pci_release_regions dev,
          Pci_disable_device dev,
          Printk KERN_INFO ''FPGA PCI device removed\<newline>'' []]))"

section \<open>The device table\<close>

text \<open>\<^verbatim>\<open>struct pci_device_id\<close> and the header macro \<^verbatim>\<open>PCI_DEVICE\<close>, which sets the two
  subsystem fields to \<^verbatim>\<open>PCI_ANY_ID\<close> and leaves the rest zero.\<close>

record pci_device_id =
  id_vendor :: "32 word"
  id_device :: "32 word"
  id_subvendor :: "32 word"
  id_subdevice :: "32 word"
  id_class :: "32 word"
  id_class_mask :: "32 word"
  id_driver_data :: "64 word"

definition PCI_ANY_ID :: "32 word" where
  "PCI_ANY_ID = - 1"

definition PCI_DEVICE :: "32 word \<Rightarrow> 32 word \<Rightarrow> pci_device_id" where
  "PCI_DEVICE vend dev =
     \<lparr>id_vendor = vend, id_device = dev, id_subvendor = PCI_ANY_ID, id_subdevice = PCI_ANY_ID,
      id_class = 0, id_class_mask = 0, id_driver_data = 0\<rparr>"

definition zero_id :: pci_device_id where
  "zero_id =
     \<lparr>id_vendor = 0, id_device = 0, id_subvendor = 0, id_subdevice = 0,
      id_class = 0, id_class_mask = 0, id_driver_data = 0\<rparr>"

definition fpga_pci_ids :: "pci_device_id list" where
  "fpga_pci_ids = [PCI_DEVICE 0x1234 0x5678, zero_id]"

text \<open>The entries of a table are those before the terminating all-zero entry.\<close>

fun table_entries :: "pci_device_id list \<Rightarrow> pci_device_id list" where
  "table_entries [] = []"
| "table_entries (e # es) = (if e = zero_id then [] else e # table_entries es)"

text \<open>Modelled from the spec: the membership test itself is run by the host kernel's matching
  code, which is not part of the driver's sources. The spec (4.1) gives it as the operation
  \<^verbatim>\<open>matches(vendor, device) -> bool\<close>, a pure membership predicate over the table's
  (vendor-id, device-id) pairs of 16-bit values.\<close>

definition matches :: "16 word \<Rightarrow> 16 word \<Rightarrow> bool" where
  "matches vendor device =
     ((ucast vendor, ucast device) \<in> set (map (\<lambda>e. (id_vendor e, id_device e)) (table_entries fpga_pci_ids)))"

section \<open>Resources held across kernel calls\<close>

text \<open>
  The resources of the kernel interface the driver uses, each with the handle that
  identifies it: the enabled state and the region reservation of a device, an MMIO mapping
  made by \<^verbatim>\<open>pci_iomap\<close>, a write-combined mapping made by \<^verbatim>\<open>ioremap_wc\<close>, a coherent DMA
  buffer (device, size, CPU address, bus address) and an interrupt registration (line and
  \<^verbatim>\<open>dev_id\<close>). A call acquires a resource when the kernel's reply says it succeeded (status
  \<open>0\<close>, or a non-null pointer); a release call names the resource by its handle.
\<close>

datatype resource =
    Enabled ptr
  | Regions ptr
  | Mmio_mapping ptr ptr
  | Wc_mapping ptr
  | Dma_buffer ptr size_t ptr dma_addr_t
  | Irq_registration "32 word" ptr

fun acquires :: "kcall \<Rightarrow> resource option" where
  "acquires (Pci_enable_device dev r) = (if r = 0 then Some (Enabled dev) else None)"
| "acquires (Pci_request_regions dev name r) = (if r = 0 then Some (Regions dev) else None)"
| "acquires (Pci_iomap dev bar maxlen a) = (if a = 0 then None else Some (Mmio_mapping dev a))"
| "acquires (Ioremap_wc start len a) = (if a = 0 then None else Some (Wc_mapping a))"
| "acquires (Dma_alloc_coherent dev sz flags cpu bus) =
     (if cpu = 0 then None else Some (Dma_buffer dev sz cpu bus))"
| "acquires (Request_irq line h flags name dev_id r) =
     (if r = 0 then Some (Irq_registration line dev_id) else None)"
| "acquires _ = None"

fun releases :: "kcall \<Rightarrow> resource option" where
  "releases (Free_irq line dev_id) = Some (Irq_registration line dev_id)"
| "releases (Dma_free_coherent dev sz cpu bus) = Some (Dma_buffer dev sz cpu bus)"
| "releases (Iounmap a) = Some (Wc_mapping a)"
| "releases (Pci_iounmap dev a) = Some (Mmio_mapping dev a)"
| "releases (Pci_release_regions dev) = Some (Regions dev)"
| "releases (Pci_disable_device dev) = Some (Enabled dev)"
| "releases _ = None"

text \<open>The six primitives that try to acquire something, whether or not they succeed.\<close>

fun is_attempt :: "kcall \<Rightarrow> bool" where
  "is_attempt (Pci_enable_device dev r) = True"
| "is_attempt (Pci_request_regions dev name r) = True"
| "is_attempt (Pci_iomap dev bar maxlen a) = True"
| "is_attempt (Ioremap_wc start len a) = True"
| "is_attempt (Dma_alloc_coherent dev sz flags cpu bus) = True"
| "is_attempt (Request_irq line h flags name dev_id r) = True"
| "is_attempt _ = False"

fun is_release :: "kcall \<Rightarrow> bool" where
  "is_release (Free_irq line dev_id) = True"
| "is_release (Dma_free_coherent dev sz cpu bus) = True"
| "is_release (Iounmap a) = True"
| "is_release (Pci_iounmap dev a) = True"
| "is_release (Pci_release_regions dev) = True"
| "is_release (Pci_disable_device dev) = True"
| "is_release _ = False"

fun is_printk :: "kcall \<Rightarrow> bool" where
  "is_printk (Printk level fmt args) = True"
| "is_printk _ = False"

fun is_dma_alloc :: "kcall \<Rightarrow> bool" where
  "is_dma_alloc (Dma_alloc_coherent dev sz flags cpu bus) = True"
| "is_dma_alloc _ = False"

fun is_request_irq :: "kcall \<Rightarrow> bool" where
  "is_request_irq (Request_irq line h flags name dev_id r) = True"
| "is_request_irq _ = False"

text \<open>The call that gives a resource back.\<close>

fun release_call :: "resource \<Rightarrow> kcall" where
  "release_call (Enabled dev) = Pci_disable_device dev"
| "release_call (Regions dev) = Pci_release_regions dev"
| "release_call (Mmio_mapping dev a) = Pci_iounmap dev a"
| "release_call (Wc_mapping a) = Iounmap a"
| "release_call (Dma_buffer dev sz cpu bus) = Dma_free_coherent dev sz cpu bus"
| "release_call (Irq_registration line dev_id) = Free_irq line dev_id"

definition attempts :: "kcall list \<Rightarrow> kcall list" where
  "attempts t = filter is_attempt t"

definition resource_calls :: "kcall list \<Rightarrow> kcall list" where
  "resource_calls t = filter (\<lambda>c. is_attempt c \<or> is_release c) t"

definition other_than_printk :: "kcall list \<Rightarrow> kcall list" where
  "other_than_printk t = filter (\<lambda>c. \<not> is_printk c) t"

definition acquired :: "kcall list \<Rightarrow> resource list" where
  "acquired t = List.map_filter acquires t"

definition released :: "kcall list \<Rightarrow> resource list" where
  "released t = List.map_filter releases t"

text \<open>The live resources, most recent first: an acquisition adds its resource, a release
  takes one occurrence of the resource it names away (and nothing when none is held).\<close>

definition ledger_step :: "resource list \<Rightarrow> kcall \<Rightarrow> resource list" where
  "ledger_step live c =
     (case acquires c of
        Some r \<Rightarrow> r # live
      | None \<Rightarrow> (case releases c of Some r \<Rightarrow> remove1 r live | None \<Rightarrow> live))"

definition live_after :: "resource list \<Rightarrow> kcall list \<Rightarrow> resource list" where
  "live_after live t = foldl ledger_step live t"

definition live_count :: "kcall list \<Rightarrow> nat" where
  "live_count t = length (live_after [] t)"

section \<open>The pipeline as the specification words it\<close>

text \<open>
  The specification (4.2) numbers six steps: enable, reserve the regions, map region 0 as
  MMIO, map region 0 again as write-combined, allocate a DMA-coherent buffer of 4096 bytes
  bound to the device, register the interrupt handler on the device's line in shared mode.
  \<open>spec_pipeline\<close> is that list as kernel calls, with the kernel's replies filled in, and
  \<open>spec_resources\<close> is what each step holds once it succeeded. They are written from the
  specification, to be compared with what \<open>fpga_pci_probe\<close> does.
\<close>

definition spec_pipeline :: "probe_kernel \<Rightarrow> pci_dev \<Rightarrow> kcall list" where
  "spec_pipeline k pdev =
     [Pci_enable_device (pdev_addr pdev) (reply_enable k),
      Pci_request_regions (pdev_addr pdev) DRIVER_NAME (reply_request_regions k),
      Pci_iomap (pdev_addr pdev) 0 (pci_resource_len pdev 0) (reply_iomap k),
      Ioremap_wc (pci_resource_start pdev 0) (pci_resource_len pdev 0) (reply_ioremap_wc k),
      Dma_alloc_coherent (pdev_addr pdev) 4096 GFP_KERNEL
        (fst (reply_dma_alloc k)) (snd (reply_dma_alloc k)),
      Request_irq (irq pdev) Fpga_pci_irq_handler IRQF_SHARED DRIVER_NAME (pdev_addr pdev)
        (reply_request_irq k)]"

definition spec_resources :: "probe_kernel \<Rightarrow> pci_dev \<Rightarrow> resource list" where
  "spec_resources k pdev =
     [Enabled (pdev_addr pdev),
      Regions (pdev_addr pdev),
      Mmio_mapping (pdev_addr pdev) (reply_iomap k),
      Wc_mapping (reply_ioremap_wc k),
      Dma_buffer (pdev_addr pdev) 4096 (fst (reply_dma_alloc k)) (snd (reply_dma_alloc k)),
      Irq_registration (irq pdev) (pdev_addr pdev)]"

text \<open>The first step, in the order of the pipeline, to which the kernel replies with a
  failure: a non-zero status for steps 1, 2 and 6, a null pointer for steps 3, 4 and 5.\<close>

definition failing_step :: "probe_kernel \<Rightarrow> nat option" where
  "failing_step k =
     (if reply_enable k \<noteq> 0 then Some 1
      else if reply_request_regions k \<noteq> 0 then Some 2
      else if reply_iomap k = 0 then Some 3
      else if reply_ioremap_wc k = 0 then Some 4
      else if fst (reply_dma_alloc k) = 0 then Some 5
      else if reply_request_irq k \<noteq> 0 then Some 6
      else None)"

definition reaches_step :: "probe_kernel \<Rightarrow> nat \<Rightarrow> bool" where
  "reaches_step k n = (case failing_step k of None \<Rightarrow> True | Some m \<Rightarrow> n \<le> m)"

definition steps_attempted :: "probe_kernel \<Rightarrow> nat" where
  "steps_attempted k = (case failing_step k of None \<Rightarrow> 6 | Some n \<Rightarrow> n)"

definition steps_succeeded :: "probe_kernel \<Rightarrow> nat" where
  "steps_succeeded k = (case failing_step k of None \<Rightarrow> 6 | Some n \<Rightarrow> n - 1)"

text \<open>The error of a failing step: the kernel's status where the primitive returns one,
  and \<^verbatim>\<open>-ENOMEM\<close> where the primitive returns a null pointer.\<close>

definition step_error :: "probe_kernel \<Rightarrow> nat \<Rightarrow> c_int" where
  "step_error k n =
     (if n = 1 then reply_enable k
      else if n = 2 then reply_request_regions k
      else if n = 6 then reply_request_irq k
      else - ENOMEM)"

section \<open>Mappings and the memory behind them\<close>






text \<open>The virtual address a mapping call returns, and the virtual address at which a
  held mapping lives.\<close>

fun mapping_reply :: "kcall \<Rightarrow> ptr option" where
  "mapping_reply (Pci_iomap dev bar maxlen a) = Some a"
| "mapping_reply (Ioremap_wc start len a) = Some a"
| "mapping_reply _ = None"

fun mapped_address :: "resource \<Rightarrow> ptr option" where
  "mapped_address (Mmio_mapping dev a) = Some a"
| "mapped_address (Wc_mapping a) = Some a"
| "mapped_address _ = None"

text \<open>Modelled from the spec: which virtual address a mapping gets is chosen inside the
  kernel, which is not part of the driver's sources. The spec (3, 4.2) has the two mappings
  of a device as distinct virtual aliases that are held at once; on the kernel's side this
  is the contract of its mapping primitives: a mapping call either fails (null) or returns
  an address at which no mapping is live at the moment of the call. \<open>fresh_from live t\<close>
  says that every mapping call of the trace \<open>t\<close>, run from the live resources \<open>live\<close>,
  keeps to that contract. An address may be handed out again once its mapping has been
  unmapped.\<close>

fun fresh_from :: "resource list \<Rightarrow> kcall list \<Rightarrow> bool" where
  "fresh_from live [] = True"
| "fresh_from live (c # cs) =
     ((case mapping_reply c of
         None \<Rightarrow> True
       | Some a \<Rightarrow> a = 0 \<or> a \<notin> set (List.map_filter mapped_address live))
      \<and> fresh_from (ledger_step live c) cs)"

section \<open>Example devices and kernel behaviours\<close>

text \<open>A device on interrupt line 11 whose BAR 0 is 64 KiB at \<open>0xF0000000\<close>, a kernel that
  grants every request of the probe, one that answers both mapping requests with one and the
  same address (which no kernel keeping to the contract above does), one that refuses the write-combined mapping (the
  specification's scenario B), one that refuses the interrupt line with \<^verbatim>\<open>-EBUSY\<close>, and the
  replies a kernel gives at removal while the probe's mapping and buffer are still held:
  a new mapping and a new buffer.\<close>

definition example_dev :: pci_dev where
  "example_dev =
     \<lparr>pdev_addr = 0x100, irq = 11,
      resource_start = (\<lambda>bar. if bar = 0 then 0xF0000000 else 0),
      resource_len = (\<lambda>bar. if bar = 0 then 0x10000 else 0),
      driver_data = 0\<rparr>"

definition all_granted :: probe_kernel where
  "all_granted =
     \<lparr>reply_enable = 0, reply_request_regions = 0, reply_iomap = 0x1000,
      reply_ioremap_wc = 0x2000, reply_dma_alloc = (0x3000, 0x4000), reply_request_irq = 0\<rparr>"

definition wc_refused :: probe_kernel where
  "wc_refused = all_granted\<lparr>reply_ioremap_wc := 0\<rparr>"

definition irq_refused :: probe_kernel where
  "irq_refused = all_granted\<lparr>reply_request_irq := - 16\<rparr>"

definition same_address :: probe_kernel where
  "same_address = all_granted\<lparr>reply_ioremap_wc := 0x1000\<rparr>"

definition fresh_at_remove :: remove_kernel where
  "fresh_at_remove = \<lparr>again_ioremap_wc = 0x5000, again_dma_alloc = (0x6000, 0x7000)\<rparr>"

section \<open>Unfolding rules\<close>

lemmas probe_defs = fpga_pci_probe_def Let_def pci_set_drvdata_def

lemmas spec_defs = failing_step_def step_error_def spec_pipeline_def spec_resources_def
  reaches_step_def steps_attempted_def steps_succeeded_def

lemmas trace_defs = attempts_def resource_calls_def other_than_printk_def acquired_def
  released_def live_after_def ledger_step_def live_count_def

lemmas example_defs = example_dev_def all_granted_def wc_refused_def irq_refused_def
  same_address_def fresh_at_remove_def pci_resource_start_def pci_resource_len_def DRIVER_NAME_def
  IRQF_SHARED_def ENOMEM_def

section \<open>The probe pipeline\<close>

text \<open>
  Claim C4. The probe attempts the six acquisition steps of the specification in their fixed
  order and stops at the first one that fails: the acquisition calls it makes are the first
  \<open>steps_attempted k\<close> calls of the six-step pipeline (all six when nothing fails, the
  steps up to and including the failing one otherwise), every step before the failing one
  yields its resource, and the probe returns \<open>0\<close> exactly when no step fails.
\<close>

theorem probe_steps_in_order:
  "length (spec_pipeline k pdev) = 6
   \<and> attempts (snd (snd (fpga_pci_probe k pdev))) =
       take (steps_attempted k) (spec_pipeline k pdev)
   \<and> acquired (snd (snd (fpga_pci_probe k pdev))) =
       take (steps_succeeded k) (spec_resources k pdev)
   \<and> (fst (fpga_pci_probe k pdev) = 0 \<longleftrightarrow> failing_step k = None)"
  by (auto simp: probe_defs spec_defs trace_defs ENOMEM_def split: if_splits prod.splits)

theorem probe_steps_in_order_witness:
  "attempts (snd (snd (fpga_pci_probe all_granted example_dev))) =
       [Pci_enable_device 0x100 0,
        Pci_request_regions 0x100 ''fpga_pci'' 0,
        Pci_iomap 0x100 0 0x10000 0x1000,
        Ioremap_wc 0xF0000000 0x10000 0x2000,
        Dma_alloc_coherent 0x100 4096 GFP_KERNEL 0x3000 0x4000,
        Request_irq 11 Fpga_pci_irq_handler 0x80 ''fpga_pci'' 0x100 0]
   \<and> attempts (snd (snd (fpga_pci_probe wc_refused example_dev))) =
       [Pci_enable_device 0x100 0,
        Pci_request_regions 0x100 ''fpga_pci'' 0,
        Pci_iomap 0x100 0 0x10000 0x1000,
        Ioremap_wc 0xF0000000 0x10000 0]"
  using probe_steps_in_order [of all_granted example_dev]
    probe_steps_in_order [of wc_refused example_dev]
  by (simp add: spec_defs example_defs)

text \<open>
  Claim C3. When step \<open>n\<close> of the pipeline fails (\<open>n\<close> is then between 1 and 6), the probe
  has acquired the resources of steps 1 to \<open>n - 1\<close>, gives every one of them back, by the
  handle it was acquired with, in the reverse of the order of acquisition, after the failing
  attempt and before it returns; it returns the error of the failing step, which is not
  \<open>0\<close>; and no resource is live afterwards: the live resources are what they were before
  the probe, so their count, starting from none, is zero.
\<close>

theorem probe_failure_unwinds:
  assumes "failing_step k = Some n"
  shows "1 \<le> n \<and> n \<le> 6
       \<and> resource_calls (snd (snd (fpga_pci_probe k pdev))) =
           take n (spec_pipeline k pdev)
           @ map release_call (rev (take (n - 1) (spec_resources k pdev)))
       \<and> acquired (snd (snd (fpga_pci_probe k pdev))) = take (n - 1) (spec_resources k pdev)
       \<and> released (snd (snd (fpga_pci_probe k pdev))) =
           rev (acquired (snd (snd (fpga_pci_probe k pdev))))
       \<and> fst (fpga_pci_probe k pdev) = step_error k n
       \<and> fst (fpga_pci_probe k pdev) \<noteq> 0
       \<and> live_after live (snd (snd (fpga_pci_probe k pdev))) = live
       \<and> live_count (snd (snd (fpga_pci_probe k pdev))) = 0"
  using assms
  by (auto simp: probe_defs spec_defs trace_defs ENOMEM_def split: if_splits prod.splits)

theorem probe_failure_unwinds_witness:
  "failing_step wc_refused = Some 4
   \<and> resource_calls (snd (snd (fpga_pci_probe wc_refused example_dev))) =
       [Pci_enable_device 0x100 0,
        Pci_request_regions 0x100 ''fpga_pci'' 0,
        Pci_iomap 0x100 0 0x10000 0x1000,
        Ioremap_wc 0xF0000000 0x10000 0,
        Pci_iounmap 0x100 0x1000,
        Pci_release_regions 0x100,
        Pci_disable_device 0x100]
   \<and> sint (fst (fpga_pci_probe wc_refused example_dev)) = - 12
   \<and> live_count (snd (snd (fpga_pci_probe wc_refused example_dev))) = 0"
  using probe_failure_unwinds [of wc_refused 4 example_dev "[]"]
  by (simp add: spec_defs example_defs)

text \<open>
  Claim C7. Whenever the probe comes to step 5 it asks for a coherent DMA buffer of exactly
  4096 bytes for the probed device, once, and at no other size; when the probe succeeds the
  kernel's reply had a non-null CPU address, and the buffer is held as the pair of that CPU
  address and the bus address stored through \<^verbatim>\<open>&dma_handle\<close>, bound to the device.
\<close>

theorem dma_buffer_is_4096_bytes:
  "filter is_dma_alloc (snd (snd (fpga_pci_probe k pdev))) =
     (if reaches_step k 5
      then [Dma_alloc_coherent (pdev_addr pdev) 4096 GFP_KERNEL
              (fst (reply_dma_alloc k)) (snd (reply_dma_alloc k))]
      else [])
   \<and> (fst (fpga_pci_probe k pdev) = 0 \<longrightarrow>
        fst (reply_dma_alloc k) \<noteq> 0
        \<and> count_list (live_after [] (snd (snd (fpga_pci_probe k pdev))))
            (Dma_buffer (pdev_addr pdev) 4096 (fst (reply_dma_alloc k)) (snd (reply_dma_alloc k))) = 1)"
  by (auto simp: probe_defs spec_defs trace_defs ENOMEM_def split: if_splits prod.splits)

theorem dma_buffer_is_4096_bytes_witness:
  "filter is_dma_alloc (snd (snd (fpga_pci_probe all_granted example_dev))) =
     [Dma_alloc_coherent 0x100 4096 GFP_KERNEL 0x3000 0x4000]
   \<and> fst (fpga_pci_probe all_granted example_dev) = 0
   \<and> count_list (live_after [] (snd (snd (fpga_pci_probe all_granted example_dev))))
        (Dma_buffer 0x100 4096 0x3000 0x4000) = 1"
  using dma_buffer_is_4096_bytes [of all_granted example_dev]
  by (simp add: probe_defs spec_defs example_defs)

lemma fresh_from_allows_reuse_after_unmap:
  "fresh_from [] [Pci_iomap dev 0 len 0x1000, Pci_iounmap dev 0x1000, Ioremap_wc start len 0x1000]"
  by (simp add: ledger_step_def List.map_filter_def)

lemma same_address_run_is_not_fresh:
  "fst (fpga_pci_probe same_address example_dev) = 0
   \<and> \<not> fresh_from [] (snd (snd (fpga_pci_probe same_address example_dev)))"
  by (simp add: probe_defs example_defs ledger_step_def List.map_filter_def)



text \<open>
  Claim C9. After a successful probe the device differs from the device before it in
  \<^verbatim>\<open>driver_data\<close> only, which holds the MMIO address returned at step 3. The addresses
  returned at steps 4 and 5 leave no mark: had the kernel returned any other non-null
  write-combined address and any other DMA pair, the probe would have succeeded with the
  very same device state, and what \<^verbatim>\<open>fpga_pci_remove\<close> does afterwards is written with the
  device, the MMIO address and the kernel's replies at removal alone.
\<close>

theorem probe_records_only_mmio_handle:
  assumes "fst (fpga_pci_probe k pdev) = 0"
  shows "fst (snd (fpga_pci_probe k pdev)) = pdev\<lparr>driver_data := reply_iomap k\<rparr>
       \<and> (\<forall>w c h. w \<noteq> 0 \<longrightarrow> c \<noteq> 0 \<longrightarrow>
            fst (fpga_pci_probe (k\<lparr>reply_ioremap_wc := w, reply_dma_alloc := (c, h)\<rparr>) pdev) = 0
            \<and> fst (snd (fpga_pci_probe (k\<lparr>reply_ioremap_wc := w, reply_dma_alloc := (c, h)\<rparr>) pdev)) =
                fst (snd (fpga_pci_probe k pdev)))
       \<and> fpga_pci_remove kr (fst (snd (fpga_pci_probe k pdev))) =
           (pdev\<lparr>driver_data := reply_iomap k\<rparr>,
            [Ioremap_wc (pci_resource_start pdev 0) (pci_resource_len pdev 0) (again_ioremap_wc kr),
             Dma_alloc_coherent (pdev_addr pdev) 4096 GFP_KERNEL
               (fst (again_dma_alloc kr)) (snd (again_dma_alloc kr)),
             Free_irq (irq pdev) (pdev_addr pdev),
             Dma_free_coherent (pdev_addr pdev) 4096
               (fst (again_dma_alloc kr)) (snd (again_dma_alloc kr)),
             Iounmap (again_ioremap_wc kr),
             Pci_iounmap (pdev_addr pdev) (reply_iomap k),
             Pci_release_regions (pdev_addr pdev),
             Pci_disable_device (pdev_addr pdev),
             Printk KERN_INFO ''FPGA PCI device removed\<newline>'' []])"
  using assms
  by (auto simp: probe_defs fpga_pci_remove_def pci_get_drvdata_def pci_resource_start_def
      pci_resource_len_def ENOMEM_def split: if_splits prod.splits)

theorem probe_records_only_mmio_handle_witness:
  "fst (fpga_pci_probe all_granted example_dev) = 0
   \<and> driver_data (fst (snd (fpga_pci_probe all_granted example_dev))) = 0x1000
   \<and> fst (snd (fpga_pci_probe
        (all_granted\<lparr>reply_ioremap_wc := 0x8000, reply_dma_alloc := (0x9000, 0xA000)\<rparr>) example_dev)) =
       fst (snd (fpga_pci_probe all_granted example_dev))
   \<and> snd (fpga_pci_remove fresh_at_remove (fst (snd (fpga_pci_probe all_granted example_dev)))) =
       [Ioremap_wc 0xF0000000 0x10000 0x5000,
        Dma_alloc_coherent 0x100 4096 GFP_KERNEL 0x6000 0x7000,
        Free_irq 11 0x100,
        Dma_free_coherent 0x100 4096 0x6000 0x7000,
        Iounmap 0x5000,
        Pci_iounmap 0x100 0x1000,
        Pci_release_regions 0x100,
        Pci_disable_device 0x100,
        Printk KERN_INFO ''FPGA PCI device removed\<newline>'' []]"
  using probe_records_only_mmio_handle [of all_granted example_dev fresh_at_remove]
  by (simp add: probe_defs example_defs)

section \<open>Failure of the interrupt registration\<close>

lemma probe_failure_before_irq_keeps_drvdata:
  assumes "failing_step k = Some n" and "n \<le> 5"
  shows "fst (snd (fpga_pci_probe k pdev)) = pdev"
  using assms
  by (auto simp: probe_defs spec_defs split: if_splits prod.splits)

lemma probe_failure_at_irq_publishes_drvdata:
  assumes "failing_step k = Some 6"
  shows "fst (snd (fpga_pci_probe k pdev)) = pdev\<lparr>driver_data := reply_iomap k\<rparr>"
    and "fst (fpga_pci_probe k pdev) \<noteq> 0"
    and "Pci_iounmap (pdev_addr pdev) (reply_iomap k) \<in> set (snd (snd (fpga_pci_probe k pdev)))"
  using assms
  by (auto simp: probe_defs spec_defs split: if_splits prod.splits)

text \<open>
  Claim C2 says that a failure at any step, 1 to 6, leaves the state behind the device
  handle as it was before the probe. That is so for steps 1 to 5
  (\<open>probe_failure_before_irq_keeps_drvdata\<close>). For step 6 it is not: \<^verbatim>\<open>pci_set_drvdata\<close>
  comes before \<^verbatim>\<open>request_irq\<close>, and the failure path of \<^verbatim>\<open>request_irq\<close> gives the five
  resources back without resetting it. With a kernel that refuses the interrupt line with
  \<^verbatim>\<open>-EBUSY\<close>, the probe returns \<open>-16\<close> and \<^verbatim>\<open>pci_get_drvdata\<close>, \<open>0\<close> before the probe, is
  afterwards the MMIO address \<open>0x1000\<close>, whose mapping the same failure path has unmapped.
\<close>

theorem probe_irq_failure_leaves_drvdata:
  "failing_step irq_refused = Some 6
   \<and> sint (fst (fpga_pci_probe irq_refused example_dev)) = - 16
   \<and> pci_get_drvdata example_dev = 0
   \<and> pci_get_drvdata (fst (snd (fpga_pci_probe irq_refused example_dev))) = 0x1000
   \<and> pci_get_drvdata (fst (snd (fpga_pci_probe irq_refused example_dev))) \<noteq>
       pci_get_drvdata example_dev
   \<and> released (snd (snd (fpga_pci_probe irq_refused example_dev))) =
       [Dma_buffer 0x100 4096 0x3000 0x4000, Wc_mapping 0x2000, Mmio_mapping 0x100 0x1000,
        Regions 0x100, Enabled 0x100]"
  by (simp add: probe_defs spec_defs trace_defs example_defs pci_get_drvdata_def)

section \<open>Removal\<close>

lemma remove_after_probe_leaks:
  assumes "fst (fpga_pci_probe k pdev) = 0"
  shows "live_after []
           (snd (snd (fpga_pci_probe k pdev))
            @ snd (fpga_pci_remove kr (fst (snd (fpga_pci_probe k pdev))))) =
         [Dma_buffer (pdev_addr pdev) 4096 (fst (reply_dma_alloc k)) (snd (reply_dma_alloc k)),
          Wc_mapping (reply_ioremap_wc k)]"
  using assms
  by (auto simp: probe_defs trace_defs fpga_pci_remove_def pci_get_drvdata_def ENOMEM_def
      split: if_splits prod.splits)

text \<open>
  Claim C1 says that removal releases the resources of the probe by the handles the probe
  recorded. The calls of \<^verbatim>\<open>fpga_pci_remove\<close> are in the order of the claim, but two of the
  handles are not the probe's: removal first maps region 0 write-combined again and allocates
  a second DMA buffer, and it is this new mapping and this new buffer that it unmaps and
  frees. After a successful probe on the example device, with a kernel that answers the two
  new requests with a new address each, the resources released are not the reverse of the
  resources acquired, and the probe's write-combined mapping and DMA buffer are still live
  when removal is over (\<open>remove_after_probe_leaks\<close>: for every kernel behaviour).
\<close>

theorem remove_reallocates_and_leaks:
  "fst (fpga_pci_probe all_granted example_dev) = 0
   \<and> acquired (snd (snd (fpga_pci_probe all_granted example_dev))) =
       [Enabled 0x100, Regions 0x100, Mmio_mapping 0x100 0x1000, Wc_mapping 0x2000,
        Dma_buffer 0x100 4096 0x3000 0x4000, Irq_registration 11 0x100]
   \<and> snd (fpga_pci_remove fresh_at_remove (fst (snd (fpga_pci_probe all_granted example_dev)))) =
       [Ioremap_wc 0xF0000000 0x10000 0x5000,
        Dma_alloc_coherent 0x100 4096 GFP_KERNEL 0x6000 0x7000,
        Free_irq 11 0x100,
        Dma_free_coherent 0x100 4096 0x6000 0x7000,
        Iounmap 0x5000,
        Pci_iounmap 0x100 0x1000,
        Pci_release_regions 0x100,
        Pci_disable_device 0x100,
        Printk KERN_INFO ''FPGA PCI device removed\<newline>'' []]
   \<and> released (snd (fpga_pci_remove fresh_at_remove
        (fst (snd (fpga_pci_probe all_granted example_dev))))) =
       [Irq_registration 11 0x100, Dma_buffer 0x100 4096 0x6000 0x7000, Wc_mapping 0x5000,
        Mmio_mapping 0x100 0x1000, Regions 0x100, Enabled 0x100]
   \<and> released (snd (fpga_pci_remove fresh_at_remove
        (fst (snd (fpga_pci_probe all_granted example_dev))))) \<noteq>
       rev (acquired (snd (snd (fpga_pci_probe all_granted example_dev))))
   \<and> live_after []
        (snd (snd (fpga_pci_probe all_granted example_dev))
         @ snd (fpga_pci_remove fresh_at_remove
             (fst (snd (fpga_pci_probe all_granted example_dev))))) =
       [Dma_buffer 0x100 4096 0x3000 0x4000, Wc_mapping 0x2000]"
  by (simp add: probe_defs trace_defs example_defs fpga_pci_remove_def pci_get_drvdata_def)

section \<open>The interrupt handler\<close>

text \<open>
  Claim C10. For every interrupt line number and every device argument the handler returns
  \<open>IRQ_HANDLED\<close>, without any test of whose signal it is; it leaves the state behind its
  device argument as it was, and the only thing it calls is the log: no allocation, no
  other kernel primitive.
\<close>

theorem irq_handler_claims_every_signal:
  "fpga_pci_irq_handler irq_line dev_id =
     (IRQ_HANDLED, dev_id, [Printk KERN_INFO ''FPGA PCI interrupt handled\<newline>'' []])
   \<and> other_than_printk (snd (snd (fpga_pci_irq_handler irq_line dev_id))) = []
   \<and> acquired (snd (snd (fpga_pci_irq_handler irq_line dev_id))) = []"
  by (simp add: fpga_pci_irq_handler_def trace_defs)

text \<open>
  Claim C8. Whenever the probe comes to step 6 it registers \<^verbatim>\<open>fpga_pci_irq_handler\<close>, once,
  on the line \<^verbatim>\<open>pdev->irq\<close> of the probed device with the flag \<^verbatim>\<open>IRQF_SHARED\<close>, the
  driver's name and the device as \<^verbatim>\<open>dev_id\<close>; after a successful probe that registration
  is held; and the registered handler, called by the dispatch, answers with a verdict of
  type \<^verbatim>\<open>irqreturn_t\<close>, namely \<open>IRQ_HANDLED\<close>.
\<close>

theorem irq_registered_shared:
  "filter is_request_irq (snd (snd (fpga_pci_probe k pdev))) =
     (if reaches_step k 6
      then [Request_irq (irq pdev) Fpga_pci_irq_handler IRQF_SHARED DRIVER_NAME (pdev_addr pdev)
              (reply_request_irq k)]
      else [])
   \<and> (fst (fpga_pci_probe k pdev) = 0 \<longrightarrow>
        count_list (live_after [] (snd (snd (fpga_pci_probe k pdev))))
          (Irq_registration (irq pdev) (pdev_addr pdev)) = 1)
   \<and> fst (call_handler Fpga_pci_irq_handler irq_line dev_id) = IRQ_HANDLED"
  by (auto simp: probe_defs spec_defs trace_defs ENOMEM_def fpga_pci_irq_handler_def
      split: if_splits prod.splits)

theorem irq_registered_shared_witness:
  "filter is_request_irq (snd (snd (fpga_pci_probe all_granted example_dev))) =
     [Request_irq 11 Fpga_pci_irq_handler 0x80 ''fpga_pci'' 0x100 0]
   \<and> fst (fpga_pci_probe all_granted example_dev) = 0
   \<and> count_list (live_after [] (snd (snd (fpga_pci_probe all_granted example_dev))))
        (Irq_registration 11 0x100) = 1
   \<and> fst (call_handler Fpga_pci_irq_handler 11 example_dev) = IRQ_HANDLED"
  using irq_registered_shared [of all_granted example_dev 11 example_dev]
  by (simp add: probe_defs spec_defs example_defs)

section \<open>The device identification filter\<close>

lemma ucast_16_32_inj: "(ucast (w :: 16 word) :: 32 word) = ucast v \<longleftrightarrow> w = v"
proof
  assume "(ucast w :: 32 word) = ucast v"
  then have "uint (ucast w :: 32 word) = uint (ucast v :: 32 word)" by simp
  then have "uint w = uint v" by (simp add: uint_up_ucast is_up)
  then show "w = v" by (simp add: word_uint_eq_iff)
qed simp

lemma table_entries_fpga_pci_ids:
  "table_entries fpga_pci_ids = [PCI_DEVICE 0x1234 0x5678]"
  by (simp add: fpga_pci_ids_def PCI_DEVICE_def zero_id_def PCI_ANY_ID_def)

text \<open>
  Claim C6. For every pair of 16-bit values the filter's predicate is true exactly for
  vendor \<open>0x1234\<close> with device \<open>0x5678\<close>, the one entry of the table. The predicate is a
  total function of its two arguments: it has no failure value and reads no state.
\<close>

theorem matches_iff:
  "matches vendor device \<longleftrightarrow> (vendor, device) = (0x1234, 0x5678)"
proof -
  have v: "(ucast vendor :: 32 word) = 0x1234 \<longleftrightarrow> vendor = 0x1234"
    using ucast_16_32_inj [of vendor "0x1234"] by simp
  have d: "(ucast device :: 32 word) = 0x5678 \<longleftrightarrow> device = 0x5678"
    using ucast_16_32_inj [of device "0x5678"] by simp
  show ?thesis
    by (simp add: matches_def table_entries_fpga_pci_ids PCI_DEVICE_def v d)
qed


end
